theory Spec2Isabelle
  imports Main "HOL-Library.AList" "HOL-Library.Sublist"
begin

section \<open>Python strings and values\<close>

text \<open>
  A Python \<open>str\<close> is modelled as a \<open>string\<close> whose characters are the code points
  0..255 (Latin-1); text outside that range is not covered by this development.
  \<open>isspace\<close> lists the code points below 256 for which \<open>str.isspace\<close> holds, and
  \<open>strip\<close> is \<open>str.strip()\<close> without argument.
\<close>

definition isspace :: "char \<Rightarrow> bool" where
  "isspace c =
     (let n = (of_char c :: nat)
      in (9 \<le> n \<and> n \<le> 13) \<or> (28 \<le> n \<and> n \<le> 32) \<or> n = 133 \<or> n = 160)"

definition strip :: "string \<Rightarrow> string" where
  "strip s = rev (dropWhile isspace (rev (dropWhile isspace s)))"

text \<open>\<open>str.lower()\<close> on the same range: A-Z and the Latin-1 capitals move up by 32.\<close>

definition lower_char :: "char \<Rightarrow> char" where
  "lower_char c =
     (let n = (of_char c :: nat)
      in if (65 \<le> n \<and> n \<le> 90) \<or> (192 \<le> n \<and> n \<le> 222 \<and> n \<noteq> 215)
         then char_of (n + 32) else c)"

definition lower :: "string \<Rightarrow> string" where
  "lower s = map lower_char s"

text \<open>\<open>starts_with n h\<close>: \<open>h.startswith(n)\<close>; \<open>is_in n h\<close>: the test \<open>n in h\<close> on strings.\<close>

fun starts_with :: "string \<Rightarrow> string \<Rightarrow> bool" where
  "starts_with [] h = True"
| "starts_with (x # xs) [] = False"
| "starts_with (x # xs) (y # ys) = (x = y \<and> starts_with xs ys)"

fun is_in :: "string \<Rightarrow> string \<Rightarrow> bool" where
  "is_in n [] = (n = [])"
| "is_in n (c # cs) = (starts_with n (c # cs) \<or> is_in n cs)"

text \<open>
  The values that \<open>json.load\<close> produces, which are also the values held by the
  dictionaries of the program. A \<open>dict\<close> is an association list in insertion order.
  Non-integer numbers are left out.
\<close>

datatype json =
    JNull
  | JBool bool
  | JInt int
  | JString string
  | JArray "json list"
  | JObject "(string \<times> json) list"

type_synonym dict = "(string \<times> json) list"

text \<open>Python truthiness: what \<open>not v\<close> tests. \<open>None\<close> stands for Python's \<open>None\<close>.\<close>

fun truthy :: "json \<Rightarrow> bool" where
  "truthy JNull = False"
| "truthy (JBool b) = b"
| "truthy (JInt n) = (n \<noteq> 0)"
| "truthy (JString s) = (s \<noteq> [])"
| "truthy (JArray xs) = (xs \<noteq> [])"
| "truthy (JObject kvs) = (kvs \<noteq> [])"

definition truthy_opt :: "json option \<Rightarrow> bool" where
  "truthy_opt v = (case v of None \<Rightarrow> False | Some x \<Rightarrow> truthy x)"

text \<open>\<open>d.get(k)\<close>, \<open>k in d\<close> and \<open>d.update(other)\<close>.\<close>

definition dict_get :: "dict \<Rightarrow> string \<Rightarrow> json option" where
  "dict_get d k = map_of d k"

definition has_key :: "string \<Rightarrow> dict \<Rightarrow> bool" where
  "has_key k d = (map_of d k \<noteq> None)"

definition dict_update :: "dict \<Rightarrow> dict \<Rightarrow> dict" where
  "dict_update d other = fold (\<lambda>(k, v) acc. AList.update k v acc) other d"

section \<open>Configuration handling\<close>

definition DEFAULT_CONFIG :: dict where
  "DEFAULT_CONFIG =
     [(''api_key'', JString ''''),
      (''theme'', JString ''light''),
      (''accent_color'', JString ''#3498db'')]"

text \<open>
  What \<open>load_config\<close> finds on disk: no file, a file that \<open>json.load\<close> rejects with
  \<open>JSONDecodeError\<close>, or a file holding a JSON object. A file whose top-level value is
  not an object is outside this model.
\<close>

datatype config_file = Missing | Malformed | Parsed dict

text \<open>
  \<open>QColor(v)\<close> is a call into the Qt binding. The overload taking a \<open>str\<close> returns a
  colour object for every string and leaves it invalid when the name cannot be parsed;
  it does not raise (the program's own \<open>apply_styles\<close>, \<open>set_color_preview\<close> and
  \<open>choose_color\<close> test \<open>isValid()\<close> on the constructed object for that reason).
  Whether the constructor raises on a value of another type is a parameter
  \<open>other_raises\<close>.
\<close>

definition QColor_raises :: "(json \<Rightarrow> bool) \<Rightarrow> json \<Rightarrow> bool" where
  "QColor_raises other_raises v = (case v of JString s \<Rightarrow> False | _ \<Rightarrow> other_raises v)"

definition load_config :: "(json \<Rightarrow> bool) \<Rightarrow> config_file \<Rightarrow> dict" where
  "load_config other_raises file =
     (case file of
        Missing \<Rightarrow> DEFAULT_CONFIG
      | Malformed \<Rightarrow> DEFAULT_CONFIG
      | Parsed config_data \<Rightarrow>
          (let merged_config = dict_update DEFAULT_CONFIG config_data
           in case dict_get merged_config ''accent_color'' of
                None \<Rightarrow> merged_config
              | Some c \<Rightarrow>
                  if QColor_raises other_raises c
                  then AList.update ''accent_color'' (JString ''#3498db'') merged_config
                  else merged_config))"

section \<open>The API worker\<close>

text \<open>
  The two completion calls of the client library: \<open>model.generate_content(message)\<close>
  and \<open>model.start_chat(history=h).send_message(message)\<close>.
\<close>

datatype api_call =
    generate_content string
  | start_chat_send_message "dict list" string

text \<open>
  The response object as \<open>run\<close> reads it. \<open>resp_text\<close> is the property
  \<open>response.text\<close>, which returns a string or raises; \<open>candidates\<close> is \<open>None\<close> when the
  object has no such attribute, and each candidate is given by its \<open>content.parts\<close>,
  a part by its \<open>text\<close> attribute when it has one; \<open>prompt_feedback\<close> is \<open>None\<close> when
  the attribute is absent, and otherwise holds the block reason as it is formatted
  into the message, \<open>None\<close> when the reason is falsy.
\<close>

datatype text_access = Text string | RaisesValueError | RaisesOther string

record response =
  resp_text :: text_access
  candidates :: "string option list list option"
  prompt_feedback :: "string option option"

datatype signal = response_received string | error_occurred string

text \<open>The service: for a call, either an exception with its \<open>str(e)\<close>, or a response
  (\<open>None\<close> for a falsy one).\<close>

type_synonym service = "api_call \<Rightarrow> string + response option"

text \<open>Lines 90-96: the history filter and the choice of call.\<close>

definition formatted_history :: "dict list \<Rightarrow> dict list" where
  "formatted_history history =
     filter (\<lambda>item. has_key ''role'' item \<and> has_key ''parts'' item) history"

definition request :: "string \<Rightarrow> dict list \<Rightarrow> api_call" where
  "request message history =
     (if formatted_history history = [] then generate_content message
      else start_chat_send_message (formatted_history history) message)"

text \<open>Lines 98-122: interpreting the response. \<open>Inl e\<close> is an exception that leaves
  the \<open>try\<close> block for the handler of line 124.\<close>

definition block_check :: "response \<Rightarrow> signal" where
  "block_check r =
     (case prompt_feedback r of
        Some (Some reason) \<Rightarrow>
          error_occurred (''Request blocked: '' @ reason @ ''. Please modify your prompt.'')
      | _ \<Rightarrow> error_occurred ''Received an empty or unexpected response format from the API.'')"

definition join_text :: "string option list \<Rightarrow> string" where
  "join_text candidate_parts = concat (map the (filter (\<lambda>p. p \<noteq> None) candidate_parts))"

definition interpret_response :: "response option \<Rightarrow> string + signal" where
  "interpret_response resp =
     (case resp of
        None \<Rightarrow> Inr (error_occurred ''Received an empty or unexpected response format from the API.'')
      | Some r \<Rightarrow>
          (case resp_text r of
             Text t \<Rightarrow> Inr (response_received t)
           | RaisesOther e \<Rightarrow> Inl e
           | RaisesValueError \<Rightarrow>
               (case candidates r of
                  Some (candidate_parts # rest) \<Rightarrow>
                    if candidate_parts \<noteq> [] then
                      (if join_text candidate_parts \<noteq> []
                       then Inr (response_received (join_text candidate_parts))
                       else Inr (error_occurred ''API response candidate parts contained no text.''))
                    else Inr (block_check r)
                | _ \<Rightarrow> Inr (block_check r))))"

text \<open>Lines 124-138: the exception handler.\<close>

definition classify :: "string \<Rightarrow> string" where
  "classify e =
     (if is_in ''API key not valid'' e \<or> is_in ''API_KEY_INVALID'' e
        then ''API Error: Invalid API Key. Please check it in Settings.''
      else if is_in ''quota'' (lower e) \<or> is_in ''RESOURCE_EXHAUSTED'' e
        then ''API Error: Quota exceeded. Please check your Google AI usage limits.''
      else if is_in ''Deadline Exceeded'' e
        then ''API Error: Request timed out. Please try again.''
      else if is_in ''PermissionDenied'' e \<or> is_in ''permission denied'' (lower e)
        then ''API Error: Permission denied. Check API key permissions.''
      else if is_in ''NotFound'' e \<and> is_in ''models/'' e
        then ''API Error: Model not found. Check the model name.''
      else ''API Error: '' @ e)"

text \<open>
  \<open>GeminiWorker.__init__\<close> keeps \<open>chat_history\<close> when it is a list and takes \<open>[]\<close>
  otherwise (\<open>None\<close> here). \<open>run\<close> returns the calls it issued to the service and the
  one signal it emits.
\<close>

definition worker_history :: "dict list option \<Rightarrow> dict list" where
  "worker_history chat_history = (case chat_history of Some h \<Rightarrow> h | None \<Rightarrow> [])"

definition run :: "bool \<Rightarrow> json option \<Rightarrow> string \<Rightarrow> dict list option \<Rightarrow> service \<Rightarrow> api_call list \<times> signal" where
  "run GOOGLE_AI_AVAILABLE api_key message chat_history srv =
     (if \<not> GOOGLE_AI_AVAILABLE then ([], error_occurred ''Google AI library not installed.'')
      else if \<not> truthy_opt api_key
        then ([], error_occurred ''API Key not set. Please configure it in Settings.'')
      else
        (let call = request message (worker_history chat_history)
         in case srv call of
              Inl e \<Rightarrow> ([call], error_occurred (classify e))
            | Inr resp \<Rightarrow>
                (case interpret_response resp of
                   Inl e \<Rightarrow> ([call], error_occurred (classify e))
                 | Inr sig \<Rightarrow> ([call], sig))))"

section \<open>The chat window\<close>

text \<open>A transcript entry \<open>{'role': r, 'parts': [m]}\<close>; \<open>as_dict\<close> is the dictionary itself,
  as the worker receives it.\<close>

record turn =
  role :: string
  parts :: "string list"

definition as_dict :: "turn \<Rightarrow> dict" where
  "as_dict t = [(''role'', JString (role t)), (''parts'', JArray (map JString (parts t)))]"

text \<open>
  The life of \<open>self.worker\<close>: none yet (or the last one is done), started with its
  three constructor arguments and not yet heard from, or its one signal delivered
  and \<open>finished\<close> still to come.
\<close>

datatype worker_state =
    NoWorker
  | Running "json option" string "dict list"
  | Emitted

text \<open>
  The window together with the two module globals it reads. \<open>input_enabled\<close> is the
  enabled flag of the input line and of the send button, which the program sets
  together; \<open>chat_display\<close> lists the message bubbles (text, sender); the three
  \<open>status\<close> fields are the status label's text, its \<open>isError\<close> property (\<open>None\<close> while
  unset) and its visibility; \<open>timers\<close> holds the pending single-shot timers of
  \<open>show_status_message\<close>, each with its delay in milliseconds and the message it
  will try to hide.
\<close>

record chat_window =
  config :: dict
  GOOGLE_AI_AVAILABLE :: bool
  message_input :: string
  input_enabled :: bool
  chat_display :: "(string \<times> string) list"
  chat_history :: "turn list"
  status_text :: string
  status_isError :: "bool option"
  status_visible :: bool
  timers :: "(nat \<times> string) list"
  worker :: worker_state

definition add_message_to_chat :: "string \<Rightarrow> string \<Rightarrow> chat_window \<Rightarrow> chat_window" where
  "add_message_to_chat txt sender s = s\<lparr>chat_display := chat_display s @ [(txt, sender)]\<rparr>"

definition clear_chat_display :: "chat_window \<Rightarrow> chat_window" where
  "clear_chat_display s = s\<lparr>chat_display := []\<rparr>"

definition persistent_text :: "string \<Rightarrow> bool" where
  "persistent_text message =
     (is_in ''API Key not set'' message \<or> is_in ''google-generativeai not found'' message)"

definition show_status_message :: "string \<Rightarrow> bool \<Rightarrow> nat \<Rightarrow> chat_window \<Rightarrow> chat_window" where
  "show_status_message message error duration s =
     (let s1 = s\<lparr>status_text := message, status_isError := Some error, status_visible := True\<rparr>;
          is_persistent = (duration = 0 \<or> persistent_text message)
      in if \<not> is_persistent then s1\<lparr>timers := timers s1 @ [(duration, message)]\<rparr> else s1)"

definition hide_specific_status_message :: "string \<Rightarrow> chat_window \<Rightarrow> chat_window" where
  "hide_specific_status_message message_to_hide s =
     (if status_visible s \<and> status_text s = message_to_hide then
        (let is_persistent_error =
               (status_isError s = Some True \<and> persistent_text message_to_hide)
         in if \<not> is_persistent_error then s\<lparr>status_visible := False\<rparr> else s)
      else s)"

definition hide_status_message :: "chat_window \<Rightarrow> chat_window" where
  "hide_status_message s =
     (let is_persistent = (status_isError s = Some True \<and> persistent_text (status_text s))
      in if \<not> is_persistent then s\<lparr>status_visible := False\<rparr> else s)"

definition send_message :: "chat_window \<Rightarrow> chat_window" where
  "send_message s =
     (let user_message = strip (message_input s)
      in if user_message = [] then s
         else
           (let api_key = dict_get (config s) ''api_key''
            in if \<not> truthy_opt api_key
                 then show_status_message ''Error: API Key not set...'' True 5000 s
               else if \<not> GOOGLE_AI_AVAILABLE s
                 then show_status_message ''Error: Google AI library not installed.'' True 5000 s
               else
                 (let s1 = add_message_to_chat user_message ''user'' s;
                      s2 = s1\<lparr>message_input := []\<rparr>;
                      s3 = show_status_message ''AI is thinking...'' False 5000 s2;
                      s4 = s3\<lparr>input_enabled := False\<rparr>;
                      s5 = s4\<lparr>chat_history :=
                                chat_history s4 @ [\<lparr>role = ''user'', parts = [user_message]\<rparr>]\<rparr>
                  in s5\<lparr>worker := Running api_key user_message (map as_dict (chat_history s5))\<rparr>)))"

definition handle_response :: "string \<Rightarrow> chat_window \<Rightarrow> chat_window" where
  "handle_response ai_message s =
     (let s1 = add_message_to_chat ai_message ''model'' s;
          s2 = s1\<lparr>chat_history := chat_history s1 @ [\<lparr>role = ''model'', parts = [ai_message]\<rparr>]\<rparr>
      in hide_status_message s2)"

definition handle_error :: "string \<Rightarrow> chat_window \<Rightarrow> chat_window" where
  "handle_error error_message s =
     (let s1 = show_status_message error_message True 5000 s
      in if chat_history s1 \<noteq> [] \<and> role (last (chat_history s1)) = ''user''
         then s1\<lparr>chat_history := butlast (chat_history s1)\<rparr>
         else s1)"

definition on_worker_finished :: "chat_window \<Rightarrow> chat_window" where
  "on_worker_finished s =
     (let s1 = s\<lparr>input_enabled := True\<rparr>
      in if status_isError s1 \<noteq> Some True then hide_status_message s1 else s1)"

definition update_status_based_on_config :: "chat_window \<Rightarrow> chat_window" where
  "update_status_based_on_config s =
     (if \<not> GOOGLE_AI_AVAILABLE s
        then show_status_message ''Warning: google-generativeai not found...'' True 0 s
      else if \<not> truthy_opt (dict_get (config s) ''api_key'')
        then show_status_message ''API Key not set...'' True 0 s
      else hide_status_message s)"

definition on_settings_changed :: "(json \<Rightarrow> bool) \<Rightarrow> config_file \<Rightarrow> chat_window \<Rightarrow> chat_window" where
  "on_settings_changed other_raises file s =
     (let s1 = s\<lparr>config := load_config other_raises file\<rparr>;
          s2 = update_status_based_on_config s1;
          s3 = clear_chat_display s2
      in s3\<lparr>chat_history := []\<rparr>)"

text \<open>\<open>ChatWindow.__init__\<close>, after the module has set its two globals.\<close>

definition init :: "(json \<Rightarrow> bool) \<Rightarrow> config_file \<Rightarrow> bool \<Rightarrow> chat_window" where
  "init other_raises file available =
     update_status_based_on_config
       \<lparr>config = load_config other_raises file,
        GOOGLE_AI_AVAILABLE = available,
        message_input = [],
        input_enabled = True,
        chat_display = [],
        chat_history = [],
        status_text = [],
        status_isError = None,
        status_visible = False,
        timers = [],
        worker = NoWorker\<rparr>"

text \<open>The slot a worker signal is connected to.\<close>

fun deliver :: "signal \<Rightarrow> chat_window \<Rightarrow> chat_window" where
  "deliver (response_received ai_message) s = handle_response ai_message s"
| "deliver (error_occurred error_message) s = handle_error error_message s"

text \<open>
  The events of the running application. The toolkit delivers \<open>returnPressed\<close> and
  \<open>clicked\<close> only while the input widgets are enabled; a started worker emits the
  one signal that \<open>run\<close> computes against some service, then \<open>finished\<close>; a pending
  timer may fire; saving the settings dialog may happen at any time and leaves any
  configuration file behind.
\<close>

inductive step :: "chat_window \<Rightarrow> chat_window \<Rightarrow> bool" where
  user_submits: "input_enabled s \<Longrightarrow> step s (send_message (s\<lparr>message_input := txt\<rparr>))"
| worker_signal: "worker s = Running k m h \<Longrightarrow>
           run (GOOGLE_AI_AVAILABLE s) k m (Some h) srv = (calls, sig) \<Longrightarrow>
           step s (deliver sig (s\<lparr>worker := Emitted\<rparr>))"
| worker_finished: "worker s = Emitted \<Longrightarrow> step s (on_worker_finished (s\<lparr>worker := NoWorker\<rparr>))"
| timer_fires: "(d, m) \<in> set (timers s) \<Longrightarrow>
            step s (hide_specific_status_message m (s\<lparr>timers := remove1 (d, m) (timers s)\<rparr>))"
| settings_saved: "step s (on_settings_changed other_raises file s)"

inductive reachable :: "chat_window \<Rightarrow> bool" where
  start: "reachable (init other_raises file available)"
| next_state: "reachable s \<Longrightarrow> step s s' \<Longrightarrow> reachable s'"

text \<open>No two neighbouring entries of the transcript are both user turns.\<close>

fun no_double_user :: "turn list \<Rightarrow> bool" where
  "no_double_user [] = True"
| "no_double_user [t] = True"
| "no_double_user (a # b # rest) =
     (\<not> (role a = ''user'' \<and> role b = ''user'') \<and> no_double_user (b # rest))"

text \<open>
  The invariant of the transcript: no neighbouring user turns, and whenever the
  input is enabled or the worker has delivered its signal, the transcript does not
  end with a user turn.
\<close>

definition transcript_ok :: "chat_window \<Rightarrow> bool" where
  "transcript_ok s =
     (no_double_user (chat_history s) \<and>
      (\<not> (input_enabled s \<or> worker s = Emitted) \<or>
       chat_history s = [] \<or> role (last (chat_history s)) \<noteq> ''user''))"

section \<open>Facts about strings\<close>

lemma dropWhile_all: "(\<forall>x \<in> set (dropWhile P xs). P x) \<longleftrightarrow> (\<forall>x \<in> set xs. P x)"
  by (induction xs) auto

lemma strip_eq_Nil: "strip s = [] \<longleftrightarrow> (\<forall>c \<in> set s. isspace c)"
  by (simp add: strip_def dropWhile_all)

text \<open>The two executable tests agree with the library's \<open>prefix\<close> and \<open>sublist\<close>
  (\<open>sublist n h\<close> says that \<open>h = p @ n @ s\<close> for some \<open>p\<close> and \<open>s\<close>).\<close>

lemma starts_with_iff: "starts_with n h \<longleftrightarrow> prefix n h"
  by (induction n h rule: starts_with.induct) auto

lemma is_in_iff: "is_in n h \<longleftrightarrow> sublist n h"
  by (induction h) (auto simp: starts_with_iff sublist_Cons_right)

section \<open>Blank input\<close>

text \<open>
  C10. When the input line is empty or holds only whitespace, \<open>send_message\<close> returns
  at once: the whole window state is as before, so the transcript is unchanged, no
  worker is started, and the status label and its timers are untouched.
\<close>

theorem send_message_blank:
  "\<forall>c \<in> set (message_input s). isspace c \<Longrightarrow> send_message s = s"
  by (simp add: send_message_def strip_eq_Nil)

theorem send_message_blank_witness:
  "send_message (init (\<lambda>v. False) Missing True\<lparr>message_input := [CHR '' '', CHR 0x09]\<rparr>)
     = init (\<lambda>v. False) Missing True\<lparr>message_input := [CHR '' '', CHR 0x09]\<rparr>"
  using send_message_blank [of "init (\<lambda>v. False) Missing True\<lparr>message_input := [CHR '' '', CHR 0x09]\<rparr>"]
  by (simp add: isspace_def)

section \<open>Successful responses\<close>

lemma chat_history_hide_status_message:
  "chat_history (hide_status_message s) = chat_history s"
  by (simp add: hide_status_message_def)

text \<open>
  C5. \<open>handle_response\<close> appends one model turn holding the returned text to the
  transcript; every turn that was there before, the user turn of the submission
  included, stays in place.
\<close>

theorem handle_response_appends:
  "chat_history (handle_response ai_message s) =
     chat_history s @ [\<lparr>role = ''model'', parts = [ai_message]\<rparr>]"
  by (simp add: handle_response_def add_message_to_chat_def chat_history_hide_status_message)

section \<open>Failed dispatches\<close>

lemma chat_history_show_status_message:
  "chat_history (show_status_message message error duration s) = chat_history s"
  by (simp add: show_status_message_def Let_def)

lemma handle_error_history:
  "chat_history (handle_error error_message s) =
     (if chat_history s \<noteq> [] \<and> role (last (chat_history s)) = ''user''
      then butlast (chat_history s) else chat_history s)"
  by (simp add: handle_error_def Let_def chat_history_show_status_message)

lemma send_message_accepted:
  assumes "strip (message_input s) \<noteq> []"
    and "truthy_opt (dict_get (config s) ''api_key'')"
    and "GOOGLE_AI_AVAILABLE s"
  shows "chat_history (send_message s) =
           chat_history s @ [\<lparr>role = ''user'', parts = [strip (message_input s)]\<rparr>]"
    and "worker (send_message s) =
           Running (dict_get (config s) ''api_key'') (strip (message_input s))
             (map as_dict (chat_history s @ [\<lparr>role = ''user'', parts = [strip (message_input s)]\<rparr>]))"
    and "input_enabled (send_message s) = False"
  using assms
  by (simp_all add: send_message_def Let_def add_message_to_chat_def show_status_message_def)

text \<open>A submission that fails leaves the transcript as it was before the submission.\<close>

lemma failed_dispatch_restores:
  assumes "strip (message_input s) \<noteq> []"
    and "truthy_opt (dict_get (config s) ''api_key'')"
    and "GOOGLE_AI_AVAILABLE s"
  shows "chat_history (handle_error error_message (send_message s)) = chat_history s"
  by (simp add: handle_error_history send_message_accepted(1) [OF assms])

section \<open>Classification of exceptions\<close>

text \<open>
  C7. When the completion call raises an exception with text \<open>e\<close>, the worker has
  issued that one call and emits an error signal, never a response and never
  nothing. Its message is fixed by the first of these tests that holds, in this
  order: \<open>e\<close> contains "API key not valid" or "API_KEY_INVALID" (invalid key); the
  lower-cased \<open>e\<close> contains "quota" or \<open>e\<close> contains "RESOURCE_EXHAUSTED" (quota);
  \<open>e\<close> contains "Deadline Exceeded" (timeout); \<open>e\<close> contains "PermissionDenied" or the
  lower-cased \<open>e\<close> contains "permission denied" (permission); \<open>e\<close> contains both
  "NotFound" and "models/" (model not found); when none holds the message is
  "API Error: " followed by \<open>e\<close>.
\<close>

theorem classify_precedence:
  assumes "truthy_opt api_key"
    and "srv (request message (worker_history hist)) = Inl e"
  shows "\<exists>msg. run True api_key message hist srv =
            ([request message (worker_history hist)], error_occurred msg)
         \<and> (sublist ''API key not valid'' e \<or> sublist ''API_KEY_INVALID'' e \<longrightarrow>
              msg = ''API Error: Invalid API Key. Please check it in Settings.'')
         \<and> (\<not> (sublist ''API key not valid'' e \<or> sublist ''API_KEY_INVALID'' e) \<longrightarrow>
            (sublist ''quota'' (lower e) \<or> sublist ''RESOURCE_EXHAUSTED'' e \<longrightarrow>
              msg = ''API Error: Quota exceeded. Please check your Google AI usage limits.'')
         \<and> (\<not> (sublist ''quota'' (lower e) \<or> sublist ''RESOURCE_EXHAUSTED'' e) \<longrightarrow>
            (sublist ''Deadline Exceeded'' e \<longrightarrow>
              msg = ''API Error: Request timed out. Please try again.'')
         \<and> (\<not> sublist ''Deadline Exceeded'' e \<longrightarrow>
            (sublist ''PermissionDenied'' e \<or> sublist ''permission denied'' (lower e) \<longrightarrow>
              msg = ''API Error: Permission denied. Check API key permissions.'')
         \<and> (\<not> (sublist ''PermissionDenied'' e \<or> sublist ''permission denied'' (lower e)) \<longrightarrow>
            (sublist ''NotFound'' e \<and> sublist ''models/'' e \<longrightarrow>
              msg = ''API Error: Model not found. Check the model name.'')
         \<and> (\<not> (sublist ''NotFound'' e \<and> sublist ''models/'' e) \<longrightarrow>
              msg = ''API Error: '' @ e)))))"
proof -
  have "run True api_key message hist srv =
          ([request message (worker_history hist)], error_occurred (classify e))"
    using assms by (simp add: run_def Let_def)
  then show ?thesis
    by (intro exI [of _ "classify e"]) (simp add: classify_def is_in_iff)
qed

theorem classify_precedence_witness:
  "run True (Some (JString ''k'')) ''hi'' (Some []) (\<lambda>c. Inl ''504 Deadline Exceeded'') =
     ([generate_content ''hi''], error_occurred ''API Error: Request timed out. Please try again.'')"
proof -
  have key: "truthy_opt (Some (JString ''k''))"
    by (simp add: truthy_opt_def)
  have low: "lower ''504 Deadline Exceeded'' = ''504 deadline exceeded''"
    by code_simp
  have req: "request ''hi'' (worker_history (Some [])) = generate_content ''hi''"
    by (simp add: request_def worker_history_def formatted_history_def)
  show ?thesis
    using classify_precedence [OF key, of "\<lambda>c. Inl ''504 Deadline Exceeded''" "''hi''" "Some []" "''504 Deadline Exceeded''"]
    by (simp add: is_in_iff [symmetric] low req)
qed

text \<open>An exception out of \<open>response.text\<close> other than \<open>ValueError\<close> goes the same way.\<close>

lemma run_text_raises:
  assumes "truthy_opt api_key"
    and "srv (request message (worker_history hist)) = Inr (Some r)"
    and "resp_text r = RaisesOther e"
  shows "run True api_key message hist srv =
           ([request message (worker_history hist)], error_occurred (classify e))"
  using assms by (simp add: run_def Let_def interpret_response_def)

section \<open>Submitting without a key\<close>

lemma persistent_key_text: "persistent_text ''Error: API Key not set...''"
  by (simp add: persistent_text_def)

text \<open>
  C2. A submission of a non-blank message while \<open>config.get("api_key")\<close> is falsy:
  \<open>send_message\<close> leaves the transcript and the message bubbles as they were and
  starts no worker; a worker given that key issues no call to the service and
  emits the missing-key error; the status label shows the missing-key error,
  no timer is scheduled for it, and neither a timer firing for any message, nor
  \<open>hide_status_message\<close>, nor \<open>on_worker_finished\<close> hides it.
\<close>

theorem send_message_unconfigured:
  assumes "strip (message_input s) \<noteq> []"
    and "\<not> truthy_opt (dict_get (config s) ''api_key'')"
  shows "chat_history (send_message s) = chat_history s
       \<and> chat_display (send_message s) = chat_display s
       \<and> worker (send_message s) = worker s
       \<and> fst (run available (dict_get (config s) ''api_key'') message hist srv) = []
       \<and> snd (run True (dict_get (config s) ''api_key'') message hist srv) =
            error_occurred ''API Key not set. Please configure it in Settings.''
       \<and> status_visible (send_message s)
       \<and> status_text (send_message s) = ''Error: API Key not set...''
       \<and> status_isError (send_message s) = Some True
       \<and> timers (send_message s) = timers s
       \<and> status_visible (hide_specific_status_message m (send_message s))
       \<and> status_visible (hide_status_message (send_message s))
       \<and> status_visible (on_worker_finished (send_message s))"
  using assms persistent_key_text
  by (auto simp: send_message_def Let_def show_status_message_def run_def
      hide_specific_status_message_def hide_status_message_def on_worker_finished_def)

theorem send_message_unconfigured_witness:
  "chat_history (send_message (init (\<lambda>v. False) Missing True\<lparr>message_input := ''hello''\<rparr>)) = []
   \<and> worker (send_message (init (\<lambda>v. False) Missing True\<lparr>message_input := ''hello''\<rparr>)) = NoWorker
   \<and> status_visible (send_message (init (\<lambda>v. False) Missing True\<lparr>message_input := ''hello''\<rparr>))
   \<and> status_text (send_message (init (\<lambda>v. False) Missing True\<lparr>message_input := ''hello''\<rparr>))
       = ''Error: API Key not set...''
   \<and> timers (send_message (init (\<lambda>v. False) Missing True\<lparr>message_input := ''hello''\<rparr>)) = []"
proof -
  let ?s = "init (\<lambda>v. False) Missing True\<lparr>message_input := ''hello''\<rparr>"
  have cfg: "config ?s = DEFAULT_CONFIG"
    by (simp add: init_def load_config_def update_status_based_on_config_def
        show_status_message_def hide_status_message_def)
  have msg: "strip (message_input ?s) \<noteq> []"
    by (simp add: strip_def isspace_def)
  have key: "\<not> truthy_opt (dict_get (config ?s) ''api_key'')"
    by (simp add: cfg DEFAULT_CONFIG_def dict_get_def truthy_opt_def)
  have start: "chat_history ?s = [] \<and> worker ?s = NoWorker \<and> timers ?s = []"
    by (simp add: init_def DEFAULT_CONFIG_def load_config_def dict_get_def truthy_opt_def
        update_status_based_on_config_def show_status_message_def persistent_text_def)
  show ?thesis
    using send_message_unconfigured [OF msg key] start by simp
qed

section \<open>Interpreting the response\<close>

lemma run_response:
  assumes "truthy_opt api_key"
    and "srv (request message (worker_history hist)) = Inr resp"
    and "interpret_response resp = Inr sig"
  shows "run True api_key message hist srv = ([request message (worker_history hist)], sig)"
  using assms by (simp add: run_def Let_def)

lemma join_text_concat: "join_text ps = concat (List.map_filter id ps)"
  by (induction ps) (auto simp: join_text_def List.map_filter_def)

text \<open>
  C6, as stated, fails: a response whose \<open>text\<close> raises \<open>ValueError\<close>, whose first
  candidate has one part with empty text, and which carries the block reason
  SAFETY is answered with the no-text error, not with the blocked error.
\<close>

theorem textless_parts_counterexample:
  "run True (Some (JString ''k'')) ''hi'' (Some [])
     (\<lambda>c. Inr (Some \<lparr>resp_text = RaisesValueError, candidates = Some [[Some []]],
                       prompt_feedback = Some (Some ''SAFETY'')\<rparr>))
   = ([generate_content ''hi''], error_occurred ''API response candidate parts contained no text.'')
   \<and> error_occurred ''API response candidate parts contained no text.''
       \<noteq> error_occurred ''Request blocked: SAFETY. Please modify your prompt.''"
  by (simp add: run_def Let_def truthy_opt_def request_def worker_history_def
      formatted_history_def interpret_response_def join_text_def)

text \<open>
  C6, amended. For a response that the service returns without raising, the worker
  issues the one call and emits: (a) the direct text, when \<open>response.text\<close> yields
  one; (b) otherwise, when the first candidate has a non-empty list of parts, the
  concatenation of the parts' texts if that is non-empty, and the no-text error if
  it is empty, the block reason not being looked at; (c) otherwise (no candidates
  attribute, no candidate, or a first candidate without parts) the blocked error
  with the reason, when the response carries a truthy block reason; (d) otherwise
  the empty-response error, which is also what a falsy response gets.
\<close>

theorem interpret_response_order:
  assumes "truthy_opt api_key"
    and "srv (request message (worker_history hist)) = Inr resp"
  shows "(\<forall>r t. resp = Some r \<and> resp_text r = Text t \<longrightarrow>
            snd (run True api_key message hist srv) = response_received t)
       \<and> (\<forall>r ps rest. resp = Some r \<and> resp_text r = RaisesValueError
              \<and> candidates r = Some (ps # rest) \<and> ps \<noteq> [] \<longrightarrow>
            snd (run True api_key message hist srv) =
              (if join_text ps \<noteq> [] then response_received (join_text ps)
               else error_occurred ''API response candidate parts contained no text.''))
       \<and> (\<forall>r reason. resp = Some r \<and> resp_text r = RaisesValueError
              \<and> (candidates r = None \<or> candidates r = Some [] \<or> (\<exists>rest. candidates r = Some ([] # rest)))
              \<and> prompt_feedback r = Some (Some reason) \<longrightarrow>
            snd (run True api_key message hist srv) =
              error_occurred (''Request blocked: '' @ reason @ ''. Please modify your prompt.''))
       \<and> (\<forall>r. resp = Some r \<and> resp_text r = RaisesValueError
              \<and> (candidates r = None \<or> candidates r = Some [] \<or> (\<exists>rest. candidates r = Some ([] # rest)))
              \<and> (prompt_feedback r = None \<or> prompt_feedback r = Some None) \<longrightarrow>
            snd (run True api_key message hist srv) =
              error_occurred ''Received an empty or unexpected response format from the API.'')
       \<and> (resp = None \<longrightarrow>
            snd (run True api_key message hist srv) =
              error_occurred ''Received an empty or unexpected response format from the API.'')
       \<and> fst (run True api_key message hist srv) = [request message (worker_history hist)]"
  using assms
  by (auto simp: run_def Let_def interpret_response_def block_check_def
      split: option.splits text_access.splits list.splits sum.splits)

theorem interpret_response_order_witness:
  "snd (run True (Some (JString ''k'')) ''hi'' (Some [])
     (\<lambda>c. Inr (Some \<lparr>resp_text = RaisesValueError, candidates = Some [],
                       prompt_feedback = Some (Some ''SAFETY'')\<rparr>)))
   = error_occurred ''Request blocked: SAFETY. Please modify your prompt.''"
proof -
  have key: "truthy_opt (Some (JString ''k''))"
    by (simp add: truthy_opt_def)
  show ?thesis
    using interpret_response_order [OF key,
        of "\<lambda>c. Inr (Some \<lparr>resp_text = RaisesValueError, candidates = Some [],
                       prompt_feedback = Some (Some ''SAFETY'')\<rparr>)" "''hi''" "Some []"
           "Some \<lparr>resp_text = RaisesValueError, candidates = Some [],
                       prompt_feedback = Some (Some ''SAFETY'')\<rparr>"]
    by simp
qed

section \<open>What the worker is seeded with\<close>

lemma formatted_history_as_dict: "formatted_history (map as_dict ts) = map as_dict ts"
  by (induction ts) (simp_all add: formatted_history_def as_dict_def has_key_def)

lemma run_issues_request:
  "truthy_opt api_key \<Longrightarrow>
   fst (run True api_key message hist srv) = [request message (worker_history hist)]"
  by (simp add: run_def Let_def split: sum.splits)

text \<open>
  Seen from the worker alone, the history it is handed decides the call: no entry
  with both keys gives the single-turn call, otherwise the multi-turn call is
  seeded with those entries, in order.
\<close>

lemma request_cases:
  "(formatted_history history = [] \<longrightarrow> request message history = generate_content message)
   \<and> (formatted_history history \<noteq> [] \<longrightarrow>
        request message history = start_chat_send_message (formatted_history history) message)"
  by (simp add: request_def)

text \<open>
  Seen from the window, the history handed over is never the prior transcript:
  \<open>send_message\<close> appends the user turn first and copies the transcript afterwards,
  so every accepted submission makes the multi-turn call, seeded with the prior
  transcript followed by the current message.
\<close>

lemma send_message_never_single_turn:
  assumes "strip (message_input s) \<noteq> []"
    and "truthy_opt (dict_get (config s) ''api_key'')"
    and "GOOGLE_AI_AVAILABLE s"
    and "worker (send_message s) = Running k m h"
  shows "request m (worker_history (Some h)) =
           start_chat_send_message
             (map as_dict (chat_history s) @
              [[(''role'', JString ''user''), (''parts'', JArray [JString (strip (message_input s))])]])
             (strip (message_input s))"
  using assms(4) send_message_accepted(2) [OF assms(1-3)]
  by (auto simp: request_def worker_history_def formatted_history_as_dict
     simp del: map_append) (simp add: as_dict_def)

text \<open>
  C1 at the first message of a session. A fresh window with key "k" and an empty
  transcript, the input line holding "hello": the worker is started with the
  history \<open>[{'role': 'user', 'parts': ['hello']}]\<close>, and \<open>run\<close> issues the multi-turn
  call seeded with that entry and sends "hello" again, where the specification has
  the single-turn call and no current message in the seeded history.
\<close>

theorem first_message_sent_twice:
  "chat_history (init (\<lambda>v. False) (Parsed [(''api_key'', JString ''k'')]) True) = []
   \<and> worker (send_message
        (init (\<lambda>v. False) (Parsed [(''api_key'', JString ''k'')]) True\<lparr>message_input := ''hello''\<rparr>))
      = Running (Some (JString ''k'')) ''hello''
          [[(''role'', JString ''user''), (''parts'', JArray [JString ''hello''])]]
   \<and> fst (run True (Some (JString ''k'')) ''hello''
            (Some [[(''role'', JString ''user''), (''parts'', JArray [JString ''hello''])]])
            srv)
      = [start_chat_send_message
           [[(''role'', JString ''user''), (''parts'', JArray [JString ''hello''])]] ''hello'']"
  by (simp add: init_def load_config_def dict_update_def dict_get_def QColor_raises_def
      DEFAULT_CONFIG_def update_status_based_on_config_def hide_status_message_def
      show_status_message_def persistent_text_def truthy_opt_def send_message_def Let_def
      strip_def isspace_def add_message_to_chat_def as_dict_def run_issues_request request_def
      worker_history_def formatted_history_def has_key_def)

section \<open>Loading the accent colour\<close>

lemma map_of_dict_update: "map_of (dict_update d other) = map_of d ++ map_of (rev other)"
proof (induction other arbitrary: d)
  case Nil
  show ?case by (simp add: dict_update_def)
next
  case (Cons p other)
  obtain k v where p: "p = (k, v)" by (cases p)
  have "map_of (dict_update d (p # other)) = map_of (dict_update (AList.update k v d) other)"
    by (simp add: dict_update_def p)
  also have "\<dots> = map_of (AList.update k v d) ++ map_of (rev other)"
    by (rule Cons.IH)
  also have "\<dots> = map_of d ++ map_of (rev (p # other))"
    by (simp add: p update_conv' map_add_def fun_eq_iff split: option.splits)
  finally show ?case .
qed

text \<open>Whatever string the file stores as accent colour, parsable or not, \<open>load_config\<close>
  returns the merged dictionary with that string in it.\<close>

lemma load_config_string_accent:
  assumes "map_of (rev config_data) ''accent_color'' = Some (JString c)"
  shows "load_config other_raises (Parsed config_data) = dict_update DEFAULT_CONFIG config_data"
    and "dict_get (load_config other_raises (Parsed config_data)) ''accent_color'' = Some (JString c)"
proof -
  have "dict_get (dict_update DEFAULT_CONFIG config_data) ''accent_color'' = Some (JString c)"
    using assms by (simp add: dict_get_def map_of_dict_update map_add_def)
  then show "load_config other_raises (Parsed config_data) = dict_update DEFAULT_CONFIG config_data"
    and "dict_get (load_config other_raises (Parsed config_data)) ''accent_color'' = Some (JString c)"
    by (simp_all add: load_config_def Let_def QColor_raises_def)
qed

text \<open>
  C8 at a file that stores the accent colour "notacolor": \<open>load_config\<close> returns the
  stored string, not the default "#3498db"; the key and the theme are as stored.
\<close>

theorem load_config_keeps_unparsable_accent:
  "load_config other_raises
     (Parsed [(''api_key'', JString ''k''), (''theme'', JString ''dark''),
              (''accent_color'', JString ''notacolor'')])
   = [(''api_key'', JString ''k''), (''theme'', JString ''dark''),
      (''accent_color'', JString ''notacolor'')]"
  by (simp add: load_config_def dict_update_def dict_get_def QColor_raises_def DEFAULT_CONFIG_def)

section \<open>Status notifications\<close>

text \<open>Every message \<open>show_status_message\<close> is given with delay 0, or with one of the
  two markers in it, is shown without a timer; every other one gets a timer.\<close>

lemma show_status_message_timers:
  "timers (show_status_message message error duration s) =
     (if duration = 0 \<or> persistent_text message then timers s
      else timers s @ [(duration, message)])"
  by (simp add: show_status_message_def Let_def)

text \<open>
  C9 where the client library is missing and a key is set. The window opens with
  the warning "google-generativeai not found" and no timer. Sending "hi" replaces
  it by "Error: Google AI library not installed.", which has neither marker and
  gets a timer of 5000 ms; when that timer fires the label is hidden, the library
  still missing.
\<close>

theorem library_missing_notice_expires:
  "status_text (init (\<lambda>v. False) (Parsed [(''api_key'', JString ''k'')]) False)
     = ''Warning: google-generativeai not found...''
   \<and> timers (init (\<lambda>v. False) (Parsed [(''api_key'', JString ''k'')]) False) = []
   \<and> status_text (send_message
        (init (\<lambda>v. False) (Parsed [(''api_key'', JString ''k'')]) False\<lparr>message_input := ''hi''\<rparr>))
      = ''Error: Google AI library not installed.''
   \<and> timers (send_message
        (init (\<lambda>v. False) (Parsed [(''api_key'', JString ''k'')]) False\<lparr>message_input := ''hi''\<rparr>))
      = [(5000, ''Error: Google AI library not installed.'')]
   \<and> \<not> status_visible
        (hide_specific_status_message ''Error: Google AI library not installed.''
          (send_message
            (init (\<lambda>v. False) (Parsed [(''api_key'', JString ''k'')]) False\<lparr>message_input := ''hi''\<rparr>)))"
  by (simp add: init_def load_config_def dict_update_def dict_get_def QColor_raises_def
      DEFAULT_CONFIG_def update_status_based_on_config_def hide_status_message_def
      show_status_message_def persistent_text_def truthy_opt_def send_message_def Let_def
      strip_def isspace_def hide_specific_status_message_def)

section \<open>The transcript of every reachable state\<close>

lemma no_double_user_snoc:
  "no_double_user (h @ [t]) \<longleftrightarrow>
     no_double_user h \<and> (h = [] \<or> \<not> (role (last h) = ''user'' \<and> role t = ''user''))"
  by (induction h rule: no_double_user.induct) auto

lemma history_cases:
  obtains (empty) "h = []" | (snoc) h' t where "h = h' @ [t]"
  by (cases h rule: rev_cases) auto

lemma transcript_ok_init: "transcript_ok (init other_raises cfg_file available)"
  by (simp add: transcript_ok_def init_def update_status_based_on_config_def
      show_status_message_def hide_status_message_def Let_def)

text \<open>\<open>send_message\<close> either returns early, or appends the user turn, disables the
  input and starts the worker.\<close>

lemma send_message_fields:
  "chat_history (send_message s) = chat_history s \<and> input_enabled (send_message s) = input_enabled s
     \<and> worker (send_message s) = worker s
   \<or> chat_history (send_message s) =
        chat_history s @ [\<lparr>role = ''user'', parts = [strip (message_input s)]\<rparr>]
     \<and> \<not> input_enabled (send_message s) \<and> worker (send_message s) \<noteq> Emitted
     \<and> worker (send_message s) \<noteq> NoWorker"
  by (simp add: send_message_def Let_def show_status_message_def add_message_to_chat_def)

lemma transcript_ok_send_message:
  assumes "transcript_ok s" and "input_enabled s"
  shows "transcript_ok (send_message (s\<lparr>message_input := input_text\<rparr>))"
  using assms send_message_fields [of "s\<lparr>message_input := input_text\<rparr>"]
  by (auto simp: transcript_ok_def no_double_user_snoc)

lemma transcript_ok_handle_response:
  "transcript_ok s \<Longrightarrow> transcript_ok (handle_response ai_message (s\<lparr>worker := Emitted\<rparr>))"
  by (simp add: transcript_ok_def handle_response_def Let_def add_message_to_chat_def
      hide_status_message_def no_double_user_snoc)

lemma transcript_ok_handle_error:
  assumes "transcript_ok s"
  shows "transcript_ok (handle_error error_message (s\<lparr>worker := Emitted\<rparr>))"
proof (cases "chat_history s" rule: history_cases)
  case empty
  with assms show ?thesis
    by (simp add: transcript_ok_def handle_error_def Let_def show_status_message_def)
next
  case (snoc h' t)
  with assms have "no_double_user (h' @ [t])"
    by (simp add: transcript_ok_def)
  with snoc show ?thesis
    by (auto simp: transcript_ok_def handle_error_def Let_def show_status_message_def
        no_double_user_snoc)
qed

lemma transcript_ok_step:
  assumes "step s s'" and "transcript_ok s"
  shows "transcript_ok s'"
  using assms
proof (induction rule: step.induct)
  case (user_submits s input_text)
  then show ?case by (simp add: transcript_ok_send_message)
next
  case (worker_signal s k m h srv calls sig)
  then show ?case
    by (cases sig) (simp_all add: transcript_ok_handle_response transcript_ok_handle_error)
next
  case (worker_finished s)
  then show ?case
    by (simp add: transcript_ok_def on_worker_finished_def Let_def hide_status_message_def)
next
  case (timer_fires d m s)
  then show ?case
    by (simp add: transcript_ok_def hide_specific_status_message_def Let_def)
next
  case (settings_saved s other_raises cfg_file)
  then show ?case
    by (simp add: transcript_ok_def on_settings_changed_def Let_def clear_chat_display_def)
qed

lemma reachable_transcript_ok: "reachable s \<Longrightarrow> transcript_ok s"
  by (induction rule: reachable.induct) (auto intro: transcript_ok_init transcript_ok_step)

text \<open>While a worker is running or has yet to finish, the input is disabled, so no
  second submission can be made.\<close>

lemma in_flight_blocks_input_step:
  assumes "step s s'" and "worker s \<noteq> NoWorker \<longrightarrow> \<not> input_enabled s"
  shows "worker s' \<noteq> NoWorker \<longrightarrow> \<not> input_enabled s'"
  using assms
proof (induction rule: step.induct)
  case (user_submits s input_text)
  then show ?case
    using send_message_fields [of "s\<lparr>message_input := input_text\<rparr>"] by auto
next
  case (worker_signal s k m h srv calls sig)
  then show ?case
    by (cases sig)
      (simp_all add: handle_response_def handle_error_def Let_def add_message_to_chat_def
        hide_status_message_def show_status_message_def)
next
  case (worker_finished s)
  then show ?case
    by (simp add: on_worker_finished_def Let_def hide_status_message_def)
next
  case (timer_fires d m s)
  then show ?case
    by (simp add: hide_specific_status_message_def Let_def)
next
  case (settings_saved s other_raises cfg_file)
  then show ?case
    by (simp add: on_settings_changed_def Let_def clear_chat_display_def
        update_status_based_on_config_def show_status_message_def hide_status_message_def)
qed

lemma in_flight_blocks_input:
  "reachable s \<Longrightarrow> worker s \<noteq> NoWorker \<longrightarrow> \<not> input_enabled s"
proof (induction rule: reachable.induct)
  case (start other_raises cfg_file available)
  show ?case
    by (simp add: init_def update_status_based_on_config_def show_status_message_def
        hide_status_message_def Let_def)
next
  case (next_state s s')
  then show ?case
    using in_flight_blocks_input_step by blast
qed

text \<open>
  C4. In every state the window can reach from its start by submissions, worker
  signals (responses and errors), worker completions, timer expiries and settings
  changes, no two neighbouring entries of the transcript are both user turns.
\<close>

theorem no_consecutive_user_turns:
  "reachable s \<Longrightarrow> no_double_user (chat_history s)"
  using reachable_transcript_ok by (simp add: transcript_ok_def)

theorem no_consecutive_user_turns_witness:
  "no_double_user
     (chat_history
        (handle_response ''yo''
           (send_message
              (init (\<lambda>v. False) (Parsed [(''api_key'', JString ''k'')]) True
                 \<lparr>message_input := ''hi''\<rparr>)
            \<lparr>worker := Emitted\<rparr>)))"
proof -
  let ?s0 = "init (\<lambda>v. False) (Parsed [(''api_key'', JString ''k'')]) True"
  let ?s1 = "send_message (?s0\<lparr>message_input := ''hi''\<rparr>)"
  let ?h = "[[(''role'', JString ''user''), (''parts'', JArray [JString ''hi''])]]"
  let ?srv = "\<lambda>c::api_call. (Inr (Some \<lparr>resp_text = Text ''yo'', candidates = None,
                 prompt_feedback = None\<rparr>) :: string + response option)"
  have fields: "input_enabled ?s0 \<and> GOOGLE_AI_AVAILABLE ?s0
      \<and> dict_get (config ?s0) ''api_key'' = Some (JString ''k'') \<and> chat_history ?s0 = []"
    by (simp add: init_def load_config_def dict_update_def dict_get_def QColor_raises_def
        DEFAULT_CONFIG_def update_status_based_on_config_def hide_status_message_def
        show_status_message_def persistent_text_def truthy_opt_def Let_def)
  have r0: "reachable ?s0"
    by (rule reachable.start)
  have r1: "reachable ?s1"
    using r0 step.user_submits [of ?s0 "''hi''"] fields reachable.next_state by blast
  have w: "worker ?s1 = Running (Some (JString ''k'')) ''hi'' ?h"
    using fields
    by (simp add: send_message_def Let_def strip_def isspace_def truthy_opt_def
        add_message_to_chat_def show_status_message_def as_dict_def)
  have av: "GOOGLE_AI_AVAILABLE ?s1"
    using fields
    by (simp add: send_message_def Let_def strip_def isspace_def truthy_opt_def
        add_message_to_chat_def show_status_message_def)
  have out: "run (GOOGLE_AI_AVAILABLE ?s1) (Some (JString ''k'')) ''hi'' (Some ?h) ?srv
               = ([request ''hi'' (worker_history (Some ?h))], response_received ''yo'')"
    using av by (simp add: run_def Let_def truthy_opt_def interpret_response_def)
  have r2: "reachable (deliver (response_received ''yo'') (?s1\<lparr>worker := Emitted\<rparr>))"
    using step.worker_signal [OF w out] r1 reachable.next_state by blast
  show ?thesis
    using no_consecutive_user_turns [OF r2] by simp
qed

section \<open>Failed dispatches in reachable states\<close>

text \<open>\<open>send_message\<close> either leaves transcript and worker alone, or appends the user turn
  of the stripped input and starts a worker for that same message.\<close>

lemma send_message_worker:
  "chat_history (send_message s) = chat_history s \<and> worker (send_message s) = worker s
   \<or> chat_history (send_message s) =
        chat_history s @ [\<lparr>role = ''user'', parts = [strip (message_input s)]\<rparr>]
     \<and> (\<exists>k h. worker (send_message s) = Running k (strip (message_input s)) h)"
  by (simp add: send_message_def Let_def show_status_message_def add_message_to_chat_def)

text \<open>While a worker runs, the transcript is empty (the settings were saved in the
  meantime) or ends with the user turn of the worker's message.\<close>

lemma in_flight_transcript_step:
  assumes "step s s'"
    and "\<forall>k m h. worker s = Running k m h \<longrightarrow>
           chat_history s = [] \<or> (\<exists>earlier. chat_history s = earlier @ [\<lparr>role = ''user'', parts = [m]\<rparr>])"
  shows "\<forall>k m h. worker s' = Running k m h \<longrightarrow>
           chat_history s' = [] \<or> (\<exists>earlier. chat_history s' = earlier @ [\<lparr>role = ''user'', parts = [m]\<rparr>])"
  using assms
proof (induction rule: step.induct)
  case (user_submits s input_text)
  then show ?case
    using send_message_worker [of "s\<lparr>message_input := input_text\<rparr>"] by auto
next
  case (worker_signal s k m h srv calls sig)
  then show ?case
    by (cases sig)
      (simp_all add: handle_response_def handle_error_def Let_def add_message_to_chat_def
        hide_status_message_def show_status_message_def)
next
  case (worker_finished s)
  then show ?case
    by (simp add: on_worker_finished_def Let_def hide_status_message_def)
next
  case (timer_fires d m s)
  then show ?case
    by (simp add: hide_specific_status_message_def Let_def)
next
  case (settings_saved s other_raises cfg_file)
  then show ?case
    by (simp add: on_settings_changed_def Let_def clear_chat_display_def)
qed

lemma in_flight_transcript:
  "reachable s \<Longrightarrow>
   \<forall>k m h. worker s = Running k m h \<longrightarrow>
     chat_history s = [] \<or> (\<exists>earlier. chat_history s = earlier @ [\<lparr>role = ''user'', parts = [m]\<rparr>])"
proof (induction rule: reachable.induct)
  case (start other_raises cfg_file available)
  show ?case
    by (simp add: init_def update_status_based_on_config_def show_status_message_def
        hide_status_message_def Let_def)
next
  case (next_state s s')
  then show ?case
    using in_flight_transcript_step by blast
qed

text \<open>
  C3, as stated, fails when the settings are saved while the call is outstanding.
  A fresh window with key "k": "hi" is submitted, which appends the user turn and
  starts the worker; the settings dialog is saved, which clears the transcript;
  the call then times out. The state in which the error arrives is reachable, its
  worker is running and its transcript is empty; \<open>handle_error\<close> removes no turn, and
  the state after it is reachable too.
\<close>

theorem reset_in_flight_counterexample:
  "chat_history
     (send_message (init (\<lambda>v. False) (Parsed [(''api_key'', JString ''k'')]) True
        \<lparr>message_input := ''hi''\<rparr>))
     = [\<lparr>role = ''user'', parts = [''hi'']\<rparr>]
   \<and> reachable
       (on_settings_changed (\<lambda>v. False) (Parsed [(''api_key'', JString ''k'')])
          (send_message (init (\<lambda>v. False) (Parsed [(''api_key'', JString ''k'')]) True
             \<lparr>message_input := ''hi''\<rparr>)))
   \<and> worker
       (on_settings_changed (\<lambda>v. False) (Parsed [(''api_key'', JString ''k'')])
          (send_message (init (\<lambda>v. False) (Parsed [(''api_key'', JString ''k'')]) True
             \<lparr>message_input := ''hi''\<rparr>)))
     = Running (Some (JString ''k'')) ''hi''
         [[(''role'', JString ''user''), (''parts'', JArray [JString ''hi''])]]
   \<and> chat_history
       (on_settings_changed (\<lambda>v. False) (Parsed [(''api_key'', JString ''k'')])
          (send_message (init (\<lambda>v. False) (Parsed [(''api_key'', JString ''k'')]) True
             \<lparr>message_input := ''hi''\<rparr>)))
     = []
   \<and> chat_history
       (handle_error ''API Error: Request timed out. Please try again.''
          (on_settings_changed (\<lambda>v. False) (Parsed [(''api_key'', JString ''k'')])
             (send_message (init (\<lambda>v. False) (Parsed [(''api_key'', JString ''k'')]) True
                \<lparr>message_input := ''hi''\<rparr>))
           \<lparr>worker := Emitted\<rparr>))
     = []
   \<and> reachable
       (handle_error ''API Error: Request timed out. Please try again.''
          (on_settings_changed (\<lambda>v. False) (Parsed [(''api_key'', JString ''k'')])
             (send_message (init (\<lambda>v. False) (Parsed [(''api_key'', JString ''k'')]) True
                \<lparr>message_input := ''hi''\<rparr>))
           \<lparr>worker := Emitted\<rparr>))"
proof -
  let ?s0 = "init (\<lambda>v. False) (Parsed [(''api_key'', JString ''k'')]) True"
  let ?s1 = "send_message (?s0\<lparr>message_input := ''hi''\<rparr>)"
  let ?s2 = "on_settings_changed (\<lambda>v. False) (Parsed [(''api_key'', JString ''k'')]) ?s1"
  let ?h = "[[(''role'', JString ''user''), (''parts'', JArray [JString ''hi''])]]"
  let ?e = "''API Error: Request timed out. Please try again.''"
  let ?srv = "\<lambda>c::api_call. (Inl ''504 Deadline Exceeded'' :: string + response option)"
  have fields: "input_enabled ?s0 \<and> GOOGLE_AI_AVAILABLE ?s0
      \<and> dict_get (config ?s0) ''api_key'' = Some (JString ''k'') \<and> chat_history ?s0 = []"
    by (simp add: init_def load_config_def dict_update_def dict_get_def QColor_raises_def
        DEFAULT_CONFIG_def update_status_based_on_config_def hide_status_message_def
        show_status_message_def persistent_text_def truthy_opt_def Let_def)
  have s1: "chat_history ?s1 = [\<lparr>role = ''user'', parts = [''hi'']\<rparr>]
      \<and> worker ?s1 = Running (Some (JString ''k'')) ''hi'' ?h \<and> GOOGLE_AI_AVAILABLE ?s1"
    using fields
    by (simp add: send_message_def Let_def strip_def isspace_def truthy_opt_def
        add_message_to_chat_def show_status_message_def as_dict_def)
  have s2: "chat_history ?s2 = [] \<and> worker ?s2 = worker ?s1
      \<and> GOOGLE_AI_AVAILABLE ?s2 = GOOGLE_AI_AVAILABLE ?s1"
    by (simp add: on_settings_changed_def Let_def clear_chat_display_def
        update_status_based_on_config_def show_status_message_def hide_status_message_def)
  have r0: "reachable ?s0"
    by (rule reachable.start)
  have r1: "reachable ?s1"
    using r0 step.user_submits [of ?s0 "''hi''"] fields reachable.next_state by blast
  have r2: "reachable ?s2"
    using r1 step.settings_saved [of ?s1] reachable.next_state by blast
  have w2: "worker ?s2 = Running (Some (JString ''k'')) ''hi'' ?h"
    using s1 s2 by simp
  have low: "lower ''504 Deadline Exceeded'' = ''504 deadline exceeded''"
    by code_simp
  have cls: "classify ''504 Deadline Exceeded'' = ?e"
    by (simp add: classify_def low)
  have out: "run (GOOGLE_AI_AVAILABLE ?s2) (Some (JString ''k'')) ''hi'' (Some ?h) ?srv
               = ([request ''hi'' (worker_history (Some ?h))], error_occurred ?e)"
    using s1 s2 by (simp add: run_def Let_def truthy_opt_def cls)
  have r3: "reachable (deliver (error_occurred ?e) (?s2\<lparr>worker := Emitted\<rparr>))"
    using step.worker_signal [OF w2 out] r2 reachable.next_state by blast
  have gone: "chat_history (handle_error ?e (?s2\<lparr>worker := Emitted\<rparr>)) = []"
    using s2 by (simp add: handle_error_history)
  show ?thesis
    using s1 r2 w2 s2 gone r3 by simp
qed

text \<open>
  C3, amended. \<open>handle_error\<close> removes the last turn of the transcript exactly when
  the transcript is not empty and that turn is a user turn, and never any other
  turn. In every reachable state with a running worker, either the transcript is
  empty (the settings were saved while the call was outstanding) and the handler
  leaves it empty, or it ends with the user turn of the worker's message and the
  handler leaves exactly the turns before that one.
\<close>

theorem failed_dispatch_retraction:
  "chat_history (handle_error error_message s) =
     (if chat_history s \<noteq> [] \<and> role (last (chat_history s)) = ''user''
      then butlast (chat_history s) else chat_history s)
   \<and> (reachable s \<longrightarrow> worker s = Running k m h \<longrightarrow>
        chat_history s = []
          \<and> chat_history (handle_error error_message (s\<lparr>worker := Emitted\<rparr>)) = []
        \<or> (\<exists>earlier. chat_history s = earlier @ [\<lparr>role = ''user'', parts = [m]\<rparr>]
              \<and> chat_history (handle_error error_message (s\<lparr>worker := Emitted\<rparr>)) = earlier))"
proof (intro conjI impI)
  show "chat_history (handle_error error_message s) =
     (if chat_history s \<noteq> [] \<and> role (last (chat_history s)) = ''user''
      then butlast (chat_history s) else chat_history s)"
    by (rule handle_error_history)
next
  assume "reachable s" and "worker s = Running k m h"
  then have "chat_history s = []
      \<or> (\<exists>earlier. chat_history s = earlier @ [\<lparr>role = ''user'', parts = [m]\<rparr>])"
    using in_flight_transcript by blast
  then show "chat_history s = []
          \<and> chat_history (handle_error error_message (s\<lparr>worker := Emitted\<rparr>)) = []
        \<or> (\<exists>earlier. chat_history s = earlier @ [\<lparr>role = ''user'', parts = [m]\<rparr>]
              \<and> chat_history (handle_error error_message (s\<lparr>worker := Emitted\<rparr>)) = earlier)"
    by (auto simp: handle_error_history)
qed

theorem failed_dispatch_retraction_witness:
  "chat_history
     (handle_error ''API Error: Request timed out. Please try again.''
        (send_message (init (\<lambda>v. False) (Parsed [(''api_key'', JString ''k'')]) True
           \<lparr>message_input := ''hi''\<rparr>)
         \<lparr>worker := Emitted\<rparr>))
   = []"
proof -
  let ?s0 = "init (\<lambda>v. False) (Parsed [(''api_key'', JString ''k'')]) True"
  let ?s1 = "send_message (?s0\<lparr>message_input := ''hi''\<rparr>)"
  let ?h = "[[(''role'', JString ''user''), (''parts'', JArray [JString ''hi''])]]"
  have fields: "input_enabled ?s0 \<and> GOOGLE_AI_AVAILABLE ?s0
      \<and> dict_get (config ?s0) ''api_key'' = Some (JString ''k'') \<and> chat_history ?s0 = []"
    by (simp add: init_def load_config_def dict_update_def dict_get_def QColor_raises_def
        DEFAULT_CONFIG_def update_status_based_on_config_def hide_status_message_def
        show_status_message_def persistent_text_def truthy_opt_def Let_def)
  have s1: "chat_history ?s1 = [\<lparr>role = ''user'', parts = [''hi'']\<rparr>]
      \<and> worker ?s1 = Running (Some (JString ''k'')) ''hi'' ?h"
    using fields
    by (simp add: send_message_def Let_def strip_def isspace_def truthy_opt_def
        add_message_to_chat_def show_status_message_def as_dict_def)
  have r1: "reachable ?s1"
    using reachable.start [of "\<lambda>v. False" "Parsed [(''api_key'', JString ''k'')]" True]
      step.user_submits [of ?s0 "''hi''"] fields reachable.next_state by blast
  show ?thesis
    using failed_dispatch_retraction
      [of "''API Error: Request timed out. Please try again.''" ?s1
          "Some (JString ''k'')" "''hi''" ?h] r1 s1
    by simp
qed

end
